theory Spec2Isabelle
  imports Complex_Main
begin

section \<open>Values of the sensor table\<close>

text \<open>
  The scripts work on a pandas table read from \<^verbatim>\<open>DADOS.CSV\<close>. A cell of the table is a
  number, a missing value (pandas' NaN / NaT), a text token such as \<^verbatim>\<open>SIM\<close>, or a
  parsed timestamp. A column is the list of its cells; a table is the list of its named
  columns, in header order.

  The results of numpy's float arithmetic are modelled by \<open>float64\<close>: an exact real, the
  two infinities that a division by zero produces, or NaN. Rounding error and overflow of
  the 64-bit format are outside this model: finite arithmetic is exact.
\<close>

datatype float64 = Fin real | PInf | NInf | NaN

datatype cell = Number real | Missing | Text string | Timestamp int

type_synonym column = "cell list"

type_synonym dataframe = "(string \<times> column) list"

text \<open>
  Python exceptions. \<^verbatim>\<open>exit()\<close> raises \<open>SystemExit\<close>, which is not an instance of
  \<^verbatim>\<open>Exception\<close>; the other constructors are.
\<close>

datatype exn = KeyError string | TypeError string | ValueError string
  | LibError string | SystemExit

definition quote :: "string \<Rightarrow> string" where
  "quote s = [CHR 0x27] @ s @ [CHR 0x27]"

fun str_exn :: "exn \<Rightarrow> string" where
  "str_exn (KeyError k) = quote k"
| "str_exn (TypeError m) = m"
| "str_exn (ValueError m) = m"
| "str_exn (LibError m) = m"
| "str_exn SystemExit = []"

fun is_Exception :: "exn \<Rightarrow> bool" where
  "is_Exception SystemExit = False"
| "is_Exception _ = True"

text \<open>
  Sequencing of statements that may raise: the first exception ends the computation.
\<close>

fun pbind :: "exn + 'a \<Rightarrow> ('a \<Rightarrow> exn + 'b) \<Rightarrow> exn + 'b" where
  "pbind (Inl e) f = Inl e"
| "pbind (Inr x) f = f x"

subsection \<open>Float arithmetic with NaN and infinities\<close>

fun fneg :: "float64 \<Rightarrow> float64" where
  "fneg (Fin a) = Fin (- a)"
| "fneg PInf = NInf"
| "fneg NInf = PInf"
| "fneg NaN = NaN"

fun fadd :: "float64 \<Rightarrow> float64 \<Rightarrow> float64" where
  "fadd (Fin a) (Fin b) = Fin (a + b)"
| "fadd NaN _ = NaN"
| "fadd _ NaN = NaN"
| "fadd PInf NInf = NaN"
| "fadd NInf PInf = NaN"
| "fadd PInf _ = PInf"
| "fadd NInf _ = NInf"
| "fadd _ PInf = PInf"
| "fadd _ NInf = NInf"

definition fsub :: "float64 \<Rightarrow> float64 \<Rightarrow> float64" where
  "fsub a b = fadd a (fneg b)"

definition signed_inf :: "bool \<Rightarrow> float64" where
  "signed_inf positive = (if positive then PInf else NInf)"

fun fmul :: "float64 \<Rightarrow> float64 \<Rightarrow> float64" where
  "fmul (Fin a) (Fin b) = Fin (a * b)"
| "fmul NaN _ = NaN"
| "fmul _ NaN = NaN"
| "fmul (Fin a) PInf = (if a = 0 then NaN else signed_inf (0 < a))"
| "fmul (Fin a) NInf = (if a = 0 then NaN else signed_inf (a < 0))"
| "fmul PInf (Fin b) = (if b = 0 then NaN else signed_inf (0 < b))"
| "fmul NInf (Fin b) = (if b = 0 then NaN else signed_inf (b < 0))"
| "fmul PInf PInf = PInf"
| "fmul NInf NInf = PInf"
| "fmul PInf NInf = NInf"
| "fmul NInf PInf = NInf"

text \<open>
  numpy's division does not raise on a zero divisor: it yields an infinity (or NaN for
  \<open>0 / 0\<close>) and a warning.
\<close>

fun fdiv :: "float64 \<Rightarrow> float64 \<Rightarrow> float64" where
  "fdiv (Fin a) (Fin b) =
     (if b = 0 then (if a = 0 then NaN else signed_inf (0 < a)) else Fin (a / b))"
| "fdiv NaN _ = NaN"
| "fdiv _ NaN = NaN"
| "fdiv (Fin a) PInf = Fin 0"
| "fdiv (Fin a) NInf = Fin 0"
| "fdiv PInf (Fin b) = signed_inf (0 \<le> b)"
| "fdiv NInf (Fin b) = signed_inf (b < 0)"
| "fdiv PInf PInf = NaN"
| "fdiv PInf NInf = NaN"
| "fdiv NInf PInf = NaN"
| "fdiv NInf NInf = NaN"

fun fsqrt :: "float64 \<Rightarrow> float64" where
  "fsqrt (Fin a) = (if a < 0 then NaN else Fin (sqrt a))"
| "fsqrt PInf = PInf"
| "fsqrt NInf = NaN"
| "fsqrt NaN = NaN"

text \<open>Comparisons: every comparison with NaN is false.\<close>

fun flt :: "float64 \<Rightarrow> float64 \<Rightarrow> bool" where
  "flt (Fin a) (Fin b) = (a < b)"
| "flt NaN _ = False"
| "flt _ NaN = False"
| "flt NInf NInf = False"
| "flt NInf _ = True"
| "flt PInf _ = False"
| "flt (Fin a) PInf = True"
| "flt (Fin a) NInf = False"

definition fgt :: "float64 \<Rightarrow> float64 \<Rightarrow> bool" where
  "fgt a b = flt b a"

text \<open>
  Truth value of a numpy float in \<^verbatim>\<open>if media\<close>: false for zero only. NaN is true.
\<close>

definition truthy :: "float64 \<Rightarrow> bool" where
  "truthy x = (x \<noteq> Fin 0)"


text \<open>
  \<^verbatim>\<open>round(2)\<close> on a table is numpy's rounding: scale by 100, round half to even,
  scale back. NaN and the infinities are left as they are.
\<close>

definition rint :: "real \<Rightarrow> real" where
  "rint x =
     (let f = \<lfloor>x\<rfloor>; d = x - of_int f
      in if d < 1 / 2 then of_int f
         else if 1 / 2 < d then of_int (f + 1)
         else if even f then of_int f else of_int (f + 1))"

fun round2 :: "float64 \<Rightarrow> float64" where
  "round2 (Fin a) = Fin (rint (a * 100) / 100)"
| "round2 x = x"

subsection \<open>pandas aggregates over the non-missing values\<close>

text \<open>
  Each aggregate of a numeric series skips the missing cells. On an object series (one
  holding text) \<^verbatim>\<open>mean\<close>, \<^verbatim>\<open>quantile\<close> and the like raise \<open>TypeError\<close>.
\<close>

fun numeric_cell :: "cell \<Rightarrow> bool" where
  "numeric_cell (Number x) = True"
| "numeric_cell Missing = True"
| "numeric_cell (Text s) = False"
| "numeric_cell (Timestamp t) = False"

fun valores :: "column \<Rightarrow> real list" where
  "valores [] = []"
| "valores (Number x # cs) = x # valores cs"
| "valores (c # cs) = valores cs"

definition mean_of :: "real list \<Rightarrow> float64" where
  "mean_of xs = (if xs = [] then NaN else Fin (sum_list xs / real (length xs)))"

definition min_of :: "real list \<Rightarrow> float64" where
  "min_of xs = (case xs of [] \<Rightarrow> NaN | y # ys \<Rightarrow> Fin (fold min ys y))"

definition max_of :: "real list \<Rightarrow> float64" where
  "max_of xs = (case xs of [] \<Rightarrow> NaN | y # ys \<Rightarrow> Fin (fold max ys y))"

text \<open>Sample variance (\<^verbatim>\<open>ddof=1\<close>): NaN unless there are at least two values.\<close>

definition var_of :: "real list \<Rightarrow> float64" where
  "var_of xs =
     (if length xs \<le> 1 then NaN
      else let m = sum_list xs / real (length xs)
           in Fin (sum_list (map (\<lambda>x. (x - m)\<^sup>2) xs) / (real (length xs) - 1)))"

definition std_of :: "real list \<Rightarrow> float64" where
  "std_of xs = fsqrt (var_of xs)"

definition median_of :: "real list \<Rightarrow> float64" where
  "median_of xs =
     (if xs = [] then NaN
      else let s = sort xs; n = length s
           in if odd n then Fin (s ! (n div 2))
              else Fin ((s ! (n div 2 - 1) + s ! (n div 2)) / 2))"

text \<open>\<^verbatim>\<open>quantile(q)\<close> with pandas' default linear interpolation.\<close>

definition quantile_of :: "real \<Rightarrow> real list \<Rightarrow> float64" where
  "quantile_of q xs =
     (if xs = [] then NaN
      else let s = sort xs;
               h = (real (length s) - 1) * q;
               i = nat \<lfloor>h\<rfloor>;
               g = h - real i
           in if i + 1 < length s then Fin (s ! i + g * (s ! (i + 1) - s ! i))
              else Fin (s ! i))"

definition series_agg :: "(real list \<Rightarrow> float64) \<Rightarrow> column \<Rightarrow> exn + float64" where
  "series_agg f col =
     (if list_all numeric_cell col then Inr (f (valores col))
      else Inl (TypeError ''could not convert string to numeric''))"

subsection \<open>Numeric coercion\<close>

text \<open>
  \<^verbatim>\<open>df.apply(pd.to_numeric, errors='coerce')\<close>. The number syntax pandas accepts belongs
  to the library, not to the repository: it is the parameter \<open>parse\<close>. With
  \<^verbatim>\<open>errors='raise'\<close> (pandas' default) a token that does not parse raises
  \<open>ValueError\<close>; with \<^verbatim>\<open>errors='coerce'\<close>, which both scripts pass, it becomes a
  missing value. A timestamp is converted to its integer value.
\<close>

datatype errors_mode = errors_raise | errors_coerce

fun to_numeric_cell :: "(string \<Rightarrow> real option) \<Rightarrow> errors_mode \<Rightarrow> cell \<Rightarrow> exn + cell" where
  "to_numeric_cell parse m (Number x) = Inr (Number x)"
| "to_numeric_cell parse m Missing = Inr Missing"
| "to_numeric_cell parse m (Timestamp t) = Inr (Number (of_int t))"
| "to_numeric_cell parse m (Text s) =
     (case parse s of
        Some x \<Rightarrow> Inr (Number x)
      | None \<Rightarrow>
          (case m of
             errors_coerce \<Rightarrow> Inr Missing
           | errors_raise \<Rightarrow> Inl (ValueError (''Unable to parse string '' @ s))))"

fun to_numeric :: "(string \<Rightarrow> real option) \<Rightarrow> errors_mode \<Rightarrow> column \<Rightarrow> exn + column" where
  "to_numeric parse m [] = Inr []"
| "to_numeric parse m (c # cs) =
     pbind (to_numeric_cell parse m c) (\<lambda>c'.
     pbind (to_numeric parse m cs) (\<lambda>cs'.
       Inr (c' # cs')))"

fun df_apply :: "(column \<Rightarrow> exn + column) \<Rightarrow> dataframe \<Rightarrow> exn + dataframe" where
  "df_apply f [] = Inr []"
| "df_apply f ((name, col) # rest) =
     pbind (f col) (\<lambda>col'.
     pbind (df_apply f rest) (\<lambda>rest'.
       Inr ((name, col') # rest')))"

definition coerce_numeric :: "(string \<Rightarrow> real option) \<Rightarrow> dataframe \<Rightarrow> exn + dataframe" where
  "coerce_numeric parse df = df_apply (to_numeric parse errors_coerce) df"

text \<open>
  A number syntax to run the coercion on concrete tokens: an optional sign, digits, and
  an optional fraction. It stands for pandas' own parser in the concrete instances below;
  the general theorems hold for any \<open>parse\<close>.
\<close>

definition digit_val :: "char \<Rightarrow> nat option" where
  "digit_val c =
     (let n = (of_char c :: nat) in if 48 \<le> n \<and> n \<le> 57 then Some (n - 48) else None)"

fun digits_val :: "nat \<Rightarrow> string \<Rightarrow> nat option" where
  "digits_val acc [] = Some acc"
| "digits_val acc (c # cs) =
     (case digit_val c of None \<Rightarrow> None | Some d \<Rightarrow> digits_val (10 * acc + d) cs)"

definition parse_unsigned :: "string \<Rightarrow> real option" where
  "parse_unsigned s =
     (let ip = takeWhile (\<lambda>c. c \<noteq> CHR ''.'') s;
          fp = drop (Suc (length ip)) s
      in if ip = [] \<or> (length ip < length s \<and> fp = []) then None
         else (case (digits_val 0 ip, digits_val 0 fp) of
                 (Some i, Some f) \<Rightarrow> Some (real i + real f / 10 ^ length fp)
               | _ \<Rightarrow> None))"

definition parse_decimal :: "string \<Rightarrow> real option" where
  "parse_decimal s =
     (case s of
        [] \<Rightarrow> None
      | c # cs \<Rightarrow>
          if c = CHR ''-'' then map_option uminus (parse_unsigned cs)
          else if c = CHR ''+'' then parse_unsigned cs
          else parse_unsigned s)"

section \<open>estatistica.py: statistics relative to the mean\<close>

definition variaveis :: "string list" where
  "variaveis = [''Temp'', ''UmidadeAr'', ''USolo'']"

definition Intervalo_pct :: string where
  "Intervalo_pct = ''Intervalo (%)''"

definition Desvio_Padrao_pct :: string where
  "Desvio_Padrao_pct = ''Desvio Padr'' @ [CHR 0xC3, CHR 0xA3] @ ''o (%)''"

definition Variancia_pct :: string where
  "Variancia_pct = ''Vari'' @ [CHR 0xC3, CHR 0xA2] @ ''ncia (%)''"

definition Mediana_valor :: string where
  "Mediana_valor = ''Mediana (valor)''"

definition Mediana_pct :: string where
  "Mediana_pct = ''Mediana (%)''"

definition getitem :: "dataframe \<Rightarrow> string \<Rightarrow> exn + column" where
  "getitem df name = (case map_of df name of None \<Rightarrow> Inl (KeyError name) | Some col \<Rightarrow> Inr col)"

text \<open>
  The aggregates the loop body computes for one variable, in the order of the source.
\<close>

record agregados =
  media :: float64
  min_val :: float64
  max_val :: float64
  intervalo :: float64
  desvio :: float64
  variancia :: float64
  mediana :: float64

definition calcular :: "column \<Rightarrow> exn + agregados" where
  "calcular col =
     pbind (series_agg mean_of col) (\<lambda>me.
     pbind (series_agg min_of col) (\<lambda>mn.
     pbind (series_agg max_of col) (\<lambda>mx.
     pbind (series_agg std_of col) (\<lambda>sd.
     pbind (series_agg var_of col) (\<lambda>va.
     pbind (series_agg median_of col) (\<lambda>md.
       Inr \<lparr>media = me, min_val = mn, max_val = mx, intervalo = fsub mx mn,
            desvio = sd, variancia = va, mediana = md\<rparr>))))))"

text \<open>
  The dictionary entry of one variable. A value is \<open>None\<close> where the source writes
  Python's \<^verbatim>\<open>None\<close>.
\<close>

definition percentual :: "float64 \<Rightarrow> float64 \<Rightarrow> float64 option" where
  "percentual x me = (if truthy me then Some (fmul (fdiv x me) (Fin 100)) else None)"

definition entrada :: "agregados \<Rightarrow> (string \<times> float64 option) list" where
  "entrada a =
     [(Intervalo_pct, percentual (intervalo a) (media a)),
      (Desvio_Padrao_pct, percentual (desvio a) (media a)),
      (Variancia_pct, percentual (variancia a) (media a)),
      (Mediana_valor, Some (mediana a)),
      (Mediana_pct, percentual (mediana a) (media a))]"

fun percorrer :: "dataframe \<Rightarrow> string list \<Rightarrow> exn + (string \<times> (string \<times> float64 option) list) list"
  where
  "percorrer df [] = Inr []"
| "percorrer df (var # vars) =
     pbind (getitem df var) (\<lambda>col.
     pbind (calcular col) (\<lambda>a.
     pbind (percorrer df vars) (\<lambda>rest.
       Inr ((var, entrada a) # rest))))"

text \<open>
  \<^verbatim>\<open>pd.DataFrame(estatisticas_percentuais).T.round(2)\<close>: one row per variable, Python's
  \<^verbatim>\<open>None\<close> becomes NaN in the float table, and every cell is rounded.
\<close>

definition none_to_nan :: "float64 option \<Rightarrow> float64" where
  "none_to_nan v = (case v of None \<Rightarrow> NaN | Some x \<Rightarrow> x)"

definition to_table :: "(string \<times> (string \<times> float64 option) list) list
    \<Rightarrow> (string \<times> (string \<times> float64) list) list" where
  "to_table d = map (\<lambda>(var, row). (var, map (\<lambda>(k, v). (k, round2 (none_to_nan v))) row)) d"

definition estatistica :: "(string \<Rightarrow> real option) \<Rightarrow> dataframe
    \<Rightarrow> exn + (string \<times> (string \<times> float64) list) list" where
  "estatistica parse df =
     pbind (coerce_numeric parse df) (\<lambda>df_numeric.
     pbind (percorrer df_numeric variaveis) (\<lambda>d.
       Inr (to_table d)))"

text \<open>The cell of the result table at a variable's row and a statistic's column.\<close>

definition celula :: "(string \<times> (string \<times> float64) list) list \<Rightarrow> string \<Rightarrow> string
    \<Rightarrow> float64 option" where
  "celula t var k = (case map_of t var of None \<Rightarrow> None | Some row \<Rightarrow> map_of row k)"

text \<open>
  The numeric view that the coercion produces, cell by cell: what
  \<^verbatim>\<open>errors='coerce'\<close> makes of each kind of cell.
\<close>

fun numeric_view :: "(string \<Rightarrow> real option) \<Rightarrow> cell \<Rightarrow> cell" where
  "numeric_view parse (Number x) = Number x"
| "numeric_view parse Missing = Missing"
| "numeric_view parse (Timestamp t) = Number (of_int t)"
| "numeric_view parse (Text s) = (case parse s of Some x \<Rightarrow> Number x | None \<Rightarrow> Missing)"

section \<open>gerar\_figuras.py: the battery of charts\<close>

text \<open>
  What the script does to the outside world, in order: lines printed, the directory
  created, image files saved. \<open>Call\<close> records a renderer being entered with the table
  it is given, and \<open>Hue\<close> the labels handed to the outlier scatter.
\<close>

datatype event = Print string | MakeDirs string | SaveFig string
  | Call string dataframe | Hue "string list"

text \<open>
  A statement yields the events it caused and either a value or the exception it raised.
\<close>

type_synonym 'a proc = "event list \<times> (exn + 'a)"

definition ret :: "'a \<Rightarrow> 'a proc" where
  "ret x = ([], Inr x)"

definition raise :: "exn \<Rightarrow> 'a proc" where
  "raise e = ([], Inl e)"

definition emit :: "event \<Rightarrow> unit proc" where
  "emit ev = ([ev], Inr ())"

definition pure :: "exn + 'a \<Rightarrow> 'a proc" where
  "pure r = ([], r)"

fun seq :: "'a proc \<Rightarrow> ('a \<Rightarrow> 'b proc) \<Rightarrow> 'b proc" where
  "seq (t, Inl e) f = (t, Inl e)"
| "seq (t, Inr x) f = (case f x of (t', r) \<Rightarrow> (t @ t', r))"

text \<open>
  \<^verbatim>\<open>try: body except Exception as e: handler\<close>. An exception that is not an instance of
  \<^verbatim>\<open>Exception\<close> passes through.
\<close>

fun try_except :: "unit proc \<Rightarrow> (exn \<Rightarrow> unit proc) \<Rightarrow> unit proc" where
  "try_except (t, Inr x) h = (t, Inr x)"
| "try_except (t, Inl e) h =
     (if is_Exception e then seq (t, Inr ()) (\<lambda>_. h e) else (t, Inl e))"

text \<open>
  The libraries (pandas' date parser, matplotlib, seaborn, scikit-learn) are not part of
  the repository. \<open>to_datetime\<close> parses one date text. \<open>fault\<close> says, for a stage of
  drawing named by a label and the table being drawn, whether the library raises there
  and with which message. The scripts are verified for every such library.
\<close>

record library =
  to_datetime :: "string \<Rightarrow> int option"
  fault :: "string \<Rightarrow> dataframe \<Rightarrow> string option"

definition lib_call :: "library \<Rightarrow> string \<Rightarrow> dataframe \<Rightarrow> unit proc" where
  "lib_call L label df =
     (case fault L label df of None \<Rightarrow> ret () | Some m \<Rightarrow> raise (LibError m))"

definition savefig :: "library \<Rightarrow> string \<Rightarrow> dataframe \<Rightarrow> unit proc" where
  "savefig L path df = seq (lib_call L path df) (\<lambda>_. emit (SaveFig path))"

subsection \<open>Loading\<close>

fun add_str :: "cell \<Rightarrow> string \<Rightarrow> exn + cell" where
  "add_str (Text a) s = Inr (Text (a @ s))"
| "add_str Missing s = Inr Missing"
| "add_str (Number x) s = Inl (TypeError ''unsupported operand type(s) for +'')"
| "add_str (Timestamp t) s = Inl (TypeError ''unsupported operand type(s) for +'')"

fun add_cells :: "cell \<Rightarrow> cell \<Rightarrow> exn + cell" where
  "add_cells (Text a) (Text b) = Inr (Text (a @ b))"
| "add_cells Missing (Text b) = Inr Missing"
| "add_cells (Text a) Missing = Inr Missing"
| "add_cells Missing Missing = Inr Missing"
| "add_cells _ _ = Inl (TypeError ''unsupported operand type(s) for +'')"

fun map_exn :: "('a \<Rightarrow> exn + 'b) \<Rightarrow> 'a list \<Rightarrow> exn + 'b list" where
  "map_exn f [] = Inr []"
| "map_exn f (x # xs) =
     pbind (f x) (\<lambda>y.
     pbind (map_exn f xs) (\<lambda>ys.
       Inr (y # ys)))"

definition to_datetime_cell :: "library \<Rightarrow> cell \<Rightarrow> exn + cell" where
  "to_datetime_cell L c =
     (case c of
        Text s \<Rightarrow>
          (case to_datetime L s of
             Some t \<Rightarrow> Inr (Timestamp t)
           | None \<Rightarrow> Inl (ValueError (''Unknown datetime string format: '' @ s)))
      | Missing \<Rightarrow> Inr Missing
      | Timestamp t \<Rightarrow> Inr (Timestamp t)
      | Number x \<Rightarrow> Inr (Timestamp \<lfloor>x\<rfloor>))"

fun setitem :: "dataframe \<Rightarrow> string \<Rightarrow> column \<Rightarrow> dataframe" where
  "setitem [] name col = [(name, col)]"
| "setitem ((n, c) # rest) name col =
     (if n = name then (name, col) # rest else (n, c) # setitem rest name col)"

definition derivar_data_hora :: "library \<Rightarrow> dataframe \<Rightarrow> exn + dataframe" where
  "derivar_data_hora L dados =
     pbind (getitem dados ''Data'') (\<lambda>data.
     pbind (map_exn (\<lambda>c. add_str c '' '') data) (\<lambda>data_sp.
     pbind (getitem dados ''Hora'') (\<lambda>hora.
     pbind (map_exn (\<lambda>(a, b). add_cells a b) (zip data_sp hora)) (\<lambda>texto.
     pbind (map_exn (to_datetime_cell L) texto) (\<lambda>data_hora.
       Inr (setitem dados ''Data_Hora'' data_hora))))))"

definition Erro_ao_carregar :: string where
  "Erro_ao_carregar = ''Erro ao carregar dados: ''"

text \<open>
  \<open>csv\<close> is the outcome of \<^verbatim>\<open>pd.read_csv('DADOS.CSV')\<close>: the table, or the exception
  raised for a file that is absent or unreadable.
\<close>

definition carregar :: "library \<Rightarrow> exn + dataframe \<Rightarrow> dataframe proc" where
  "carregar L csv =
     (case pbind csv (derivar_data_hora L) of
        Inr dados \<Rightarrow> ret dados
      | Inl e \<Rightarrow>
          (if is_Exception e
           then seq (emit (Print (Erro_ao_carregar @ str_exn e))) (\<lambda>_. raise SystemExit)
           else raise e))"

subsection \<open>The check of the required columns\<close>

definition required_columns :: "string list" where
  "required_columns = [''UmidadeAr'', ''Temp'', ''USolo'']"

definition columns :: "dataframe \<Rightarrow> string list" where
  "columns df = map fst df"

definition Erro_coluna :: "string \<Rightarrow> string" where
  "Erro_coluna col =
     ''Erro: Coluna '' @ quote col @ '' n'' @ [CHR 0xC3, CHR 0xA3]
       @ ''o encontrada no arquivo CSV.''"

fun verificar :: "dataframe \<Rightarrow> string list \<Rightarrow> unit proc" where
  "verificar dados [] = ret ()"
| "verificar dados (col # cols) =
     (if col \<notin> set (columns dados)
      then seq (emit (Print (Erro_coluna col))) (\<lambda>_. raise SystemExit)
      else verificar dados cols)"

subsection \<open>The renderers\<close>

text \<open>
  Each renderer is \<^verbatim>\<open>try: body except Exception as e: print(...)\<close>. A body is the
  sequence of its column accesses, its library stages (runs of consecutive calls into
  matplotlib, seaborn or scikit-learn, named by a label) and its \<^verbatim>\<open>savefig\<close> calls, in
  source order; any of them may raise. A \<^verbatim>\<open>savefig\<close> that raises saves nothing.
\<close>

text \<open>
  \<^verbatim>\<open>str.lower\<close> on ASCII: an upper-case letter (codes 65 to 90) gets bit 5 set, which
  adds 32 to its code.
\<close>

definition lower_char :: "char \<Rightarrow> char" where
  "lower_char c =
     (let n = (of_char c :: nat)
      in if 65 \<le> n \<and> n \<le> 90
         then (case c of Char b0 b1 b2 b3 b4 b5 b6 b7 \<Rightarrow> Char b0 b1 b2 b3 b4 True b6 b7)
         else c)"

definition lower :: "string \<Rightarrow> string" where
  "lower s = map lower_char s"

definition variaveis_temporais :: "string list" where
  "variaveis_temporais = [''UmidadeAr'', ''Temp'', ''USolo'']"

fun laco_temporal :: "library \<Rightarrow> dataframe \<Rightarrow> string list \<Rightarrow> unit proc" where
  "laco_temporal L df [] = ret ()"
| "laco_temporal L df (col # cols) =
     seq (pure (getitem df ''Data_Hora'')) (\<lambda>_.
     seq (pure (getitem df col)) (\<lambda>_.
     seq (lib_call L (''plot '' @ col) df) (\<lambda>_.
     seq (savefig L (''graficos/temporal_'' @ lower col @ ''.png'') df) (\<lambda>_.
     seq (lib_call L ''close'' df) (\<lambda>_.
       laco_temporal L df cols)))))"

definition corpo_temporais :: "library \<Rightarrow> dataframe \<Rightarrow> unit proc" where
  "corpo_temporais L df =
     seq (lib_call L ''subplots'' df) (\<lambda>_.
     seq (laco_temporal L df variaveis_temporais) (\<lambda>_.
     seq (lib_call L ''tight_layout'' df) (\<lambda>_.
     seq (savefig L ''graficos/temporal_combinado.png'' df) (\<lambda>_.
       lib_call L ''close'' df))))"

definition Erro_temporais :: string where
  "Erro_temporais = ''Erro ao gerar gr'' @ [CHR 0xC3, CHR 0xA1] @ ''ficos temporais: ''"

definition plot_graficos_temporais :: "library \<Rightarrow> dataframe \<Rightarrow> unit proc" where
  "plot_graficos_temporais L df =
     try_except (corpo_temporais L df) (\<lambda>e. emit (Print (Erro_temporais @ str_exn e)))"

definition corpo_boxplot :: "library \<Rightarrow> dataframe \<Rightarrow> unit proc" where
  "corpo_boxplot L df =
     seq (lib_call L ''figure'' df) (\<lambda>_.
     seq (pure (map_exn (getitem df) [''UmidadeAr'', ''Temp'', ''USolo''])) (\<lambda>_.
     seq (lib_call L ''boxplot'' df) (\<lambda>_.
     seq (savefig L ''graficos/boxplot_variaveis.png'' df) (\<lambda>_.
       lib_call L ''close'' df))))"

definition Erro_boxplot :: string where
  "Erro_boxplot = ''Erro ao gerar boxplot: ''"

definition plot_boxplot :: "library \<Rightarrow> dataframe \<Rightarrow> unit proc" where
  "plot_boxplot L df =
     try_except (corpo_boxplot L df) (\<lambda>e. emit (Print (Erro_boxplot @ str_exn e)))"

definition corpo_correlacao :: "library \<Rightarrow> dataframe \<Rightarrow> unit proc" where
  "corpo_correlacao L df =
     seq (pure (map_exn (getitem df) [''UmidadeAr'', ''Temp'', ''USolo''])) (\<lambda>_.
     seq (lib_call L ''corr'' df) (\<lambda>_.
     seq (lib_call L ''heatmap'' df) (\<lambda>_.
     seq (savefig L ''graficos/matriz_correlacao.png'' df) (\<lambda>_.
       lib_call L ''close'' df))))"

definition Erro_correlacao :: string where
  "Erro_correlacao =
     ''Erro ao gerar matriz de correla'' @ [CHR 0xC3, CHR 0xA7, CHR 0xC3, CHR 0xA3] @ ''o: ''"

definition plot_correlacao :: "library \<Rightarrow> dataframe \<Rightarrow> unit proc" where
  "plot_correlacao L df =
     try_except (corpo_correlacao L df) (\<lambda>e. emit (Print (Erro_correlacao @ str_exn e)))"

text \<open>
  The outlier scatter: the quartiles of the air-humidity column, the two limits, and the
  label that the \<^verbatim>\<open>lambda\<close> gives each cell of the same column.
\<close>

fun cell_float :: "cell \<Rightarrow> float64" where
  "cell_float (Number x) = Fin x"
| "cell_float c = NaN"

definition limites :: "column \<Rightarrow> exn + float64 \<times> float64" where
  "limites col =
     pbind (series_agg (quantile_of 0.25) col) (\<lambda>Q1.
     pbind (series_agg (quantile_of 0.75) col) (\<lambda>Q3.
       let IQR = fsub Q3 Q1;
           limite_inf = fsub Q1 (fmul (Fin 1.5) IQR);
           limite_sup = fadd Q3 (fmul (Fin 1.5) IQR)
       in Inr (limite_inf, limite_sup)))"

definition classificar :: "float64 \<Rightarrow> float64 \<Rightarrow> float64 \<Rightarrow> string" where
  "classificar limite_inf limite_sup x =
     (if flt x limite_inf \<or> fgt x limite_sup then ''Outlier'' else ''Normal'')"

definition outlier_hue :: "column \<Rightarrow> exn + string list" where
  "outlier_hue col =
     pbind (limites col) (\<lambda>(limite_inf, limite_sup).
       Inr (map (\<lambda>c. classificar limite_inf limite_sup (cell_float c)) col))"

definition corpo_outliers :: "library \<Rightarrow> dataframe \<Rightarrow> unit proc" where
  "corpo_outliers L df =
     seq (lib_call L ''figure'' df) (\<lambda>_.
     seq (pure (getitem df ''UmidadeAr'')) (\<lambda>col.
     seq (pure (outlier_hue col)) (\<lambda>hue.
     seq (emit (Hue hue)) (\<lambda>_.
     seq (lib_call L ''scatterplot'' df) (\<lambda>_.
     seq (savefig L ''graficos/outliers_umidade.png'' df) (\<lambda>_.
       lib_call L ''close'' df))))))"

definition Erro_outliers :: string where
  "Erro_outliers = ''Erro ao gerar gr'' @ [CHR 0xC3, CHR 0xA1] @ ''fico de outliers: ''"

definition plot_outliers :: "library \<Rightarrow> dataframe \<Rightarrow> unit proc" where
  "plot_outliers L df =
     try_except (corpo_outliers L df) (\<lambda>e. emit (Print (Erro_outliers @ str_exn e)))"

definition corpo_pca :: "library \<Rightarrow> dataframe \<Rightarrow> unit proc" where
  "corpo_pca L df =
     seq (pure (map_exn (getitem df) [''UmidadeAr'', ''Temp'', ''USolo''])) (\<lambda>_.
     seq (lib_call L ''pca'' df) (\<lambda>_.
     seq (lib_call L ''scatter'' df) (\<lambda>_.
     seq (savefig L ''graficos/pca_ambiental.png'' df) (\<lambda>_.
       lib_call L ''close'' df))))"

definition Erro_pca :: string where
  "Erro_pca = ''Erro ao gerar PCA: ''"

definition plot_pca :: "library \<Rightarrow> dataframe \<Rightarrow> unit proc" where
  "plot_pca L df =
     try_except (corpo_pca L df) (\<lambda>e. emit (Print (Erro_pca @ str_exn e)))"

subsection \<open>The script\<close>

text \<open>
  The plotting style set at the top of the script changes no output considered here and
  is left out. \<^verbatim>\<open>os.makedirs('graficos', exist_ok=True)\<close> is taken to succeed.
\<close>

definition chamar :: "string \<Rightarrow> (library \<Rightarrow> dataframe \<Rightarrow> unit proc) \<Rightarrow> library \<Rightarrow> dataframe
    \<Rightarrow> unit proc" where
  "chamar name f L df = seq (emit (Call name df)) (\<lambda>_. f L df)"

definition relatorio_final :: "string list" where
  "relatorio_final =
     [''Processamento conclu'' @ [CHR 0xC3, CHR 0xAD] @ ''do. Verifique a pasta ''
        @ quote ''graficos/'',
      ''Arquivos gerados:'',
      ''- temporal_combinado.png (gr'' @ [CHR 0xC3, CHR 0xA1] @ ''fico com 3 subplots)'',
      ''- temporal_umidadear.png (umidade do ar individual)'',
      ''- temporal_temp.png (temperatura individual)'',
      ''- temporal_usolo.png (umidade do solo individual)'',
      ''- boxplot_variaveis.png'',
      ''- matriz_correlacao.png'',
      ''- outliers_umidade.png'',
      ''- pca_ambiental.png'']"

fun imprimir :: "string list \<Rightarrow> unit proc" where
  "imprimir [] = ret ()"
| "imprimir (l # ls) = seq (emit (Print l)) (\<lambda>_. imprimir ls)"

definition gerar_figuras :: "library \<Rightarrow> exn + dataframe \<Rightarrow> unit proc" where
  "gerar_figuras L csv =
     seq (carregar L csv) (\<lambda>dados.
     seq (verificar dados required_columns) (\<lambda>_.
     seq (emit (MakeDirs ''graficos'')) (\<lambda>_.
     seq (chamar ''plot_graficos_temporais'' plot_graficos_temporais L dados) (\<lambda>_.
     seq (chamar ''plot_boxplot'' plot_boxplot L dados) (\<lambda>_.
     seq (chamar ''plot_correlacao'' plot_correlacao L dados) (\<lambda>_.
     seq (chamar ''plot_outliers'' plot_outliers L dados) (\<lambda>_.
     seq (chamar ''plot_pca'' plot_pca L dados) (\<lambda>_.
       imprimir relatorio_final))))))))"


fun calls :: "event list \<Rightarrow> (string \<times> dataframe) list" where
  "calls [] = []"
| "calls (Call n df # t) = (n, df) # calls t"
| "calls (ev # t) = calls t"


text \<open>
  The five renderers in the order the script calls them: the name of the function, the
  function, its body inside the \<^verbatim>\<open>try\<close>, and the message it prints before the text
  of a caught exception.
\<close>

definition renderers ::
  "(string \<times> (library \<Rightarrow> dataframe \<Rightarrow> unit proc) \<times> (library \<Rightarrow> dataframe \<Rightarrow> unit proc)
     \<times> string) list" where
  "renderers =
     [(''plot_graficos_temporais'', plot_graficos_temporais, corpo_temporais, Erro_temporais),
      (''plot_boxplot'', plot_boxplot, corpo_boxplot, Erro_boxplot),
      (''plot_correlacao'', plot_correlacao, corpo_correlacao, Erro_correlacao),
      (''plot_outliers'', plot_outliers, corpo_outliers, Erro_outliers),
      (''plot_pca'', plot_pca, corpo_pca, Erro_pca)]"

text \<open>A statement that does not end in \<^verbatim>\<open>exit()\<close>.\<close>

definition no_exit :: "'a proc \<Rightarrow> bool" where
  "no_exit p = (snd p \<noteq> Inl SystemExit)"

section \<open>The scenario of two readings\<close>

definition csv_exemplo :: dataframe where
  "csv_exemplo =
     [(''Data'', [Text ''01/01/2025'', Text ''01/01/2025'']),
      (''Hora'', [Text ''00:00'', Text ''01:00'']),
      (''Temp'', [Number 20, Number 30]),
      (''UmidadeAr'', [Number 50, Number 70]),
      (''USolo'', [Number 30, Number 50])]"

text \<open>
  A library for that scenario: the two date texts parse (to seconds since the epoch), and
  no drawing stage raises. \<open>lib_falha\<close> is the same library with every drawing stage
  raising.
\<close>

definition lib_exemplo :: library where
  "lib_exemplo =
     \<lparr>to_datetime = (\<lambda>s. if s = ''01/01/2025 00:00'' then Some 1735689600
                          else if s = ''01/01/2025 01:00'' then Some 1735693200
                          else None),
      fault = (\<lambda>label df. None)\<rparr>"

definition lib_falha :: library where
  "lib_falha = lib_exemplo\<lparr>fault := (\<lambda>label df. Some ''falha'')\<rparr>"

definition dados_exemplo :: dataframe where
  "dados_exemplo =
     csv_exemplo @ [(''Data_Hora'', [Timestamp 1735689600, Timestamp 1735693200])]"

section \<open>A table with a zero mean and an undefined mean\<close>


text \<open>The row that the statistics table reports for a variable, if the script got that far.\<close>

definition linha :: "exn + (string \<times> (string \<times> float64) list) list \<Rightarrow> string
    \<Rightarrow> (string \<times> float64) list option" where
  "linha r var = (case r of Inl e \<Rightarrow> None | Inr t \<Rightarrow> map_of t var)"



section \<open>Properties of the coercion and of the statistics\<close>

lemma to_numeric_coerce:
  "to_numeric parse errors_coerce col = Inr (map (numeric_view parse) col)"
proof (induction col)
  case Nil
  show ?case by simp
next
  case (Cons c cs)
  have "to_numeric_cell parse errors_coerce c = Inr (numeric_view parse c)"
    by (cases c) (simp_all split: option.splits)
  with Cons show ?case by simp
qed

lemma df_apply_total:
  "(\<And>col. f col = Inr (g col)) \<Longrightarrow> df_apply f df = Inr (map (\<lambda>(n, c). (n, g c)) df)"
  by (induction df) auto

lemma coerce_numeric_eq:
  "coerce_numeric parse df = Inr (map (\<lambda>(n, c). (n, map (numeric_view parse) c)) df)"
  unfolding coerce_numeric_def by (rule df_apply_total) (rule to_numeric_coerce)

lemma numeric_view_numeric: "numeric_cell (numeric_view parse c)"
  by (cases c) (simp_all split: option.splits)

lemma numeric_view_fixed: "numeric_cell c \<Longrightarrow> numeric_view parse c = c"
  by (cases c) simp_all

lemma list_all_numeric_view: "list_all numeric_cell (map (numeric_view parse) col)"
  by (induction col) (simp_all add: numeric_view_numeric)

lemma map_of_view:
  "map_of (map (\<lambda>(n, c). (n, g c)) df) k = map_option g (map_of df k)"
  by (induction df) auto

lemma calcular_numeric:
  "list_all numeric_cell col \<Longrightarrow>
   calcular col =
     Inr \<lparr>media = mean_of (valores col), min_val = min_of (valores col),
          max_val = max_of (valores col),
          intervalo = fsub (max_of (valores col)) (min_of (valores col)),
          desvio = std_of (valores col), variancia = var_of (valores col),
          mediana = median_of (valores col)\<rparr>"
  by (simp add: calcular_def series_agg_def)

lemma percorrer_ok:
  "\<forall>v \<in> set vars. \<exists>col. map_of df v = Some col \<and> list_all numeric_cell col \<Longrightarrow>
   \<exists>d. percorrer df vars = Inr d \<and> map fst d = vars \<and>
       (\<forall>v \<in> set vars. \<forall>col. map_of df v = Some col \<longrightarrow>
          map_of d v = Some (entrada
            \<lparr>media = mean_of (valores col), min_val = min_of (valores col),
             max_val = max_of (valores col),
             intervalo = fsub (max_of (valores col)) (min_of (valores col)),
             desvio = std_of (valores col), variancia = var_of (valores col),
             mediana = median_of (valores col)\<rparr>))"
proof (induction vars)
  case Nil
  show ?case by simp
next
  case (Cons v vars)
  from Cons.prems obtain col where col: "map_of df v = Some col" "list_all numeric_cell col"
    by auto
  from Cons obtain d where d: "percorrer df vars = Inr d" "map fst d = vars"
     "\<forall>v \<in> set vars. \<forall>col. map_of df v = Some col \<longrightarrow>
          map_of d v = Some (entrada
            \<lparr>media = mean_of (valores col), min_val = min_of (valores col),
             max_val = max_of (valores col),
             intervalo = fsub (max_of (valores col)) (min_of (valores col)),
             desvio = std_of (valores col), variancia = var_of (valores col),
             mediana = median_of (valores col)\<rparr>)"
    by auto
  show ?case
    using col d by (auto simp: getitem_def calcular_numeric)
qed


lemma estatistica_ok:
  assumes "set variaveis \<subseteq> set (columns df)"
  shows "\<exists>res. estatistica parse df = Inr res \<and> map fst res = variaveis \<and>
     (\<forall>var \<in> set variaveis. \<forall>col. map_of df var = Some col \<longrightarrow>
        (\<exists>xs. xs = valores (map (numeric_view parse) col) \<and>
        map_of res var = Some (map (\<lambda>(k, v). (k, round2 (none_to_nan v)))
          (entrada \<lparr>media = mean_of xs, min_val = min_of xs, max_val = max_of xs,
             intervalo = fsub (max_of xs) (min_of xs),
             desvio = std_of xs, variancia = var_of xs, mediana = median_of xs\<rparr>))))"
proof -
  let ?dfn = "map (\<lambda>(n, c). (n, map (numeric_view parse) c)) df"
  have pre: "\<forall>v \<in> set variaveis. \<exists>col. map_of ?dfn v = Some col \<and> list_all numeric_cell col"
  proof
    fix v assume "v \<in> set variaveis"
    with assms have "v \<in> fst ` set df" by (auto simp: columns_def)
    then obtain c where "map_of df v = Some c"
      by (metis domIff dom_map_of_conv_image_fst not_Some_eq)
    then show "\<exists>col. map_of ?dfn v = Some col \<and> list_all numeric_cell col"
      by (simp add: map_of_view list_all_numeric_view)
  qed
  from percorrer_ok [OF pre] obtain d where d: "percorrer ?dfn variaveis = Inr d"
    "map fst d = variaveis"
    "\<forall>v \<in> set variaveis. \<forall>col. map_of ?dfn v = Some col \<longrightarrow>
          map_of d v = Some (entrada
            \<lparr>media = mean_of (valores col), min_val = min_of (valores col),
             max_val = max_of (valores col),
             intervalo = fsub (max_of (valores col)) (min_of (valores col)),
             desvio = std_of (valores col), variancia = var_of (valores col),
             mediana = median_of (valores col)\<rparr>)"
    by blast
  have res: "estatistica parse df = Inr (to_table d)"
    by (simp add: estatistica_def coerce_numeric_eq d(1))
  have fst: "map fst (to_table d) = variaveis"
    using d(2) by (simp add: to_table_def case_prod_unfold comp_def)
  have tab: "map_of (to_table d) v = map_option (map (\<lambda>(k, v). (k, round2 (none_to_nan v)))) (map_of d v)" for v
    unfolding to_table_def by (rule map_of_view)
  show ?thesis
    using res fst d(3) by (auto simp: tab map_of_view)
qed













section \<open>The claims about estatistica.py\<close>



lemma parse_decimal_SIM_NAO: "parse_decimal ''SIM'' = None" "parse_decimal ''NAO'' = None"
  by (simp_all add: parse_decimal_def parse_unsigned_def digit_val_def)




lemma rint_of_int: "rint (of_int n) = of_int n"
  by (simp add: rint_def)

lemma rint_between:
  assumes "of_int n \<le> x" "x < of_int n + 1 / 2"
  shows "rint x = of_int n"
proof -
  from assms have "\<lfloor>x\<rfloor> = n" by (intro floor_unique) auto
  with assms show ?thesis by (simp add: rint_def)
qed

lemma sqrt_50_bounds: "707 / 100 \<le> sqrt 50" "sqrt 50 < 707125 / 100000"
proof -
  show "707 / 100 \<le> sqrt 50"
    by (rule real_le_rsqrt) (simp add: power2_eq_square)
  show "sqrt 50 < 707125 / 100000"
    by (rule real_less_lsqrt) (simp_all add: power2_eq_square)
qed

lemma rint_sqrt_50: "rint (sqrt 50 * 400) = 2828"
proof -
  have "rint (sqrt 50 * 400) = of_int 2828"
    using sqrt_50_bounds by (intro rint_between) auto
  then show ?thesis by simp
qed

lemma agregados_exemplo:
  "mean_of [20, 30] = Fin 25" "min_of [20, 30] = Fin 20" "max_of [20, 30] = Fin 30"
  "var_of [20, 30] = Fin 50" "std_of [20, 30] = Fin (sqrt 50)" "median_of [20, 30] = Fin 25"
  by (simp_all add: mean_of_def min_of_def max_of_def var_of_def std_of_def median_of_def
      power2_eq_square)

lemma linha_exemplo:
  "map (\<lambda>(k, v). (k, round2 (none_to_nan v)))
     (entrada \<lparr>media = Fin 25, min_val = Fin 20, max_val = Fin 30,
        intervalo = fsub (Fin 30) (Fin 20), desvio = Fin (sqrt 50), variancia = Fin 50,
        mediana = Fin 25\<rparr>)
   = [(Intervalo_pct, Fin 40), (Desvio_Padrao_pct, Fin (2828 / 100)),
      (Variancia_pct, Fin 200), (Mediana_valor, Fin 25), (Mediana_pct, Fin 100)]"
proof -
  have "rint (400 * sqrt 50) = 2828"
    using rint_sqrt_50 by (simp add: mult.commute)
  then have sd: "round2 (fmul (fdiv (Fin (sqrt 50)) (Fin 25)) (Fin 100)) = Fin (2828 / 100)"
    by (simp add: rint_sqrt_50)
  have others: "round2 (fmul (fdiv (Fin 10) (Fin 25)) (Fin 100)) = Fin 40"
    "round2 (fmul (fdiv (Fin 50) (Fin 25)) (Fin 100)) = Fin 200"
    "round2 (fmul (fdiv (Fin 25) (Fin 25)) (Fin 100)) = Fin 100"
    "round2 (Fin 25) = Fin 25"
    by (simp_all add: rint_def)
  have range: "fsub (Fin 30) (Fin 20) = Fin 10" by (simp add: fsub_def)
  show ?thesis
    unfolding entrada_def percentual_def truthy_def none_to_nan_def range
    using sd others by simp
qed

lemma temp_exemplo:
  "\<exists>res. estatistica parse csv_exemplo = Inr res \<and>
     map_of res ''Temp''
       = Some [(Intervalo_pct, Fin 40), (Desvio_Padrao_pct, Fin (2828 / 100)),
          (Variancia_pct, Fin 200), (Mediana_valor, Fin 25), (Mediana_pct, Fin 100)]"
proof -
  have cols: "set variaveis \<subseteq> set (columns csv_exemplo)"
    by (simp add: variaveis_def columns_def csv_exemplo_def)
  have var: "''Temp'' \<in> set variaveis" by (simp add: variaveis_def)
  have col: "map_of csv_exemplo ''Temp'' = Some [Number 20, Number 30]"
    by (simp add: csv_exemplo_def)
  from estatistica_ok [OF cols, of parse] var col obtain res where
    res: "estatistica parse csv_exemplo = Inr res"
    and row: "map_of res ''Temp'' = Some (map (\<lambda>(k, v). (k, round2 (none_to_nan v)))
          (entrada \<lparr>media = mean_of [20, 30], min_val = min_of [20, 30],
             max_val = max_of [20, 30],
             intervalo = fsub (max_of [20, 30]) (min_of [20, 30]),
             desvio = std_of [20, 30], variancia = var_of [20, 30],
             mediana = median_of [20, 30]\<rparr>))"
    by fastforce
  show ?thesis
    using res row by (simp add: agregados_exemplo linha_exemplo)
qed

text \<open>
  C7, as amended. On the table of the two readings the loop body computes, for
  \<open>Temp\<close>, mean 25, minimum 20, maximum 30, range 10 and median 25, and the table
  reports range-percent 40, median 25 and median-percent 100. The reported row has
  exactly the five columns of the dictionary entry: the mean, the minimum, the maximum
  and the range are not among them.
\<close>

theorem C7_cenario_temp:
  "\<exists>df_numeric col a res.
     coerce_numeric parse csv_exemplo = Inr df_numeric \<and>
     getitem df_numeric ''Temp'' = Inr col \<and> calcular col = Inr a \<and>
     media a = Fin 25 \<and> min_val a = Fin 20 \<and> max_val a = Fin 30 \<and>
     intervalo a = Fin 10 \<and> mediana a = Fin 25 \<and>
     estatistica parse csv_exemplo = Inr res \<and>
     celula res ''Temp'' Intervalo_pct = Some (Fin 40) \<and>
     celula res ''Temp'' Mediana_valor = Some (Fin 25) \<and>
     celula res ''Temp'' Mediana_pct = Some (Fin 100) \<and>
     map_option (map fst) (map_of res ''Temp'')
       = Some [Intervalo_pct, Desvio_Padrao_pct, Variancia_pct, Mediana_valor, Mediana_pct]"
proof -
  let ?dfn = "map (\<lambda>(n, c). (n, map (numeric_view parse) c)) csv_exemplo"
  have a: "coerce_numeric parse csv_exemplo = Inr ?dfn" by (rule coerce_numeric_eq)
  have b: "getitem ?dfn ''Temp'' = Inr [Number 20, Number 30]"
    by (simp add: getitem_def map_of_view csv_exemplo_def)
  have c: "calcular [Number 20, Number 30]
     = Inr \<lparr>media = Fin 25, min_val = Fin 20, max_val = Fin 30, intervalo = Fin 10,
          desvio = Fin (sqrt 50), variancia = Fin 50, mediana = Fin 25\<rparr>"
    by (simp add: calcular_numeric agregados_exemplo fsub_def)
  from temp_exemplo [of parse] obtain res where
    res: "estatistica parse csv_exemplo = Inr res"
    and row: "map_of res ''Temp''
       = Some [(Intervalo_pct, Fin 40), (Desvio_Padrao_pct, Fin (2828 / 100)),
          (Variancia_pct, Fin 200), (Mediana_valor, Fin 25), (Mediana_pct, Fin 100)]"
    by blast
  have cells: "celula res ''Temp'' Intervalo_pct = Some (Fin 40)"
    "celula res ''Temp'' Mediana_valor = Some (Fin 25)"
    "celula res ''Temp'' Mediana_pct = Some (Fin 100)"
    by (simp_all add: celula_def row Intervalo_pct_def Desvio_Padrao_pct_def Variancia_pct_def
        Mediana_valor_def Mediana_pct_def)
  show ?thesis
    apply (rule exI [of _ ?dfn])
    apply (rule exI [of _ "[Number 20, Number 30]"])
    apply (rule exI [of _ "\<lparr>media = Fin 25, min_val = Fin 20, max_val = Fin 30,
          intervalo = Fin 10, desvio = Fin (sqrt 50), variancia = Fin 50,
          mediana = Fin 25\<rparr>"])
    apply (rule exI [of _ res])
    using a b c res cells row by simp
qed

text \<open>
  The row reported for \<open>Temp\<close> on the two readings: none of its five values is the
  minimum 20, the maximum 30 or the range 10.
\<close>

theorem C7_reported_counterexample:
  "linha (estatistica parse_decimal csv_exemplo) ''Temp''
     = Some [(Intervalo_pct, Fin 40), (Desvio_Padrao_pct, Fin (2828 / 100)),
          (Variancia_pct, Fin 200), (Mediana_valor, Fin 25), (Mediana_pct, Fin 100)] \<and>
   Fin 20 \<notin> set [Fin 40, Fin (2828 / 100), Fin 200, Fin 25, Fin 100] \<and>
   Fin 30 \<notin> set [Fin 40, Fin (2828 / 100), Fin 200, Fin 25, Fin 100] \<and>
   Fin 10 \<notin> set [Fin 40, Fin (2828 / 100), Fin 200, Fin 25, Fin 100]"
  using temp_exemplo [of parse_decimal] by (auto simp: linha_def)

lemma numeric_view_idem: "numeric_view parse (numeric_view parse c) = numeric_view parse c"
  by (rule numeric_view_fixed) (rule numeric_view_numeric)

lemma to_numeric_idem:
  "to_numeric parse errors_coerce (map (numeric_view parse) col)
     = Inr (map (numeric_view parse) col)"
  by (simp add: to_numeric_coerce numeric_view_idem)

lemma map_numeric_view_fixed:
  "list_all numeric_cell col \<Longrightarrow> map (numeric_view parse) col = col"
  by (induction col) (simp_all add: numeric_view_fixed)

text \<open>
  C8. Coercing a column always returns a column, of the same length, that a second
  coercion returns unchanged; a column that is already numeric is returned as it is; a
  column of text tokens that do not parse becomes all missing, with no exception. The
  same holds for the whole table.
\<close>

theorem C8_coercao_idempotente:
  "(\<exists>col1. to_numeric parse errors_coerce col = Inr col1 \<and>
      to_numeric parse errors_coerce col1 = Inr col1 \<and> length col1 = length col) \<and>
   (list_all numeric_cell col \<longrightarrow> to_numeric parse errors_coerce col = Inr col) \<and>
   (list_all (\<lambda>c. \<exists>s. c = Text s \<and> parse s = None) col \<longrightarrow>
      to_numeric parse errors_coerce col = Inr (replicate (length col) Missing)) \<and>
   (\<exists>df1. coerce_numeric parse df = Inr df1 \<and> coerce_numeric parse df1 = Inr df1)"
proof (intro conjI impI)
  show "\<exists>col1. to_numeric parse errors_coerce col = Inr col1 \<and>
      to_numeric parse errors_coerce col1 = Inr col1 \<and> length col1 = length col"
    by (rule exI [of _ "map (numeric_view parse) col"])
      (simp add: to_numeric_coerce numeric_view_idem)
next
  assume "list_all numeric_cell col"
  then show "to_numeric parse errors_coerce col = Inr col"
    by (simp add: to_numeric_coerce map_numeric_view_fixed)
next
  assume "list_all (\<lambda>c. \<exists>s. c = Text s \<and> parse s = None) col"
  then have "map (numeric_view parse) col = replicate (length col) Missing"
    by (induction col) auto
  then show "to_numeric parse errors_coerce col = Inr (replicate (length col) Missing)"
    by (simp add: to_numeric_coerce)
next
  let ?df1 = "map (\<lambda>(n, c). (n, map (numeric_view parse) c)) df"
  have "map (\<lambda>(n, c). (n, map (numeric_view parse) c)) ?df1 = ?df1"
    by (induction df) (auto simp: numeric_view_idem)
  then show "\<exists>df1. coerce_numeric parse df = Inr df1 \<and> coerce_numeric parse df1 = Inr df1"
    by (intro exI [of _ ?df1]) (simp add: coerce_numeric_eq)
qed

theorem C8_coercao_idempotente_witness:
  "list_all numeric_cell [Number 20, Missing, Number 30] \<and>
   to_numeric parse_decimal errors_coerce [Number 20, Missing, Number 30]
     = Inr [Number 20, Missing, Number 30] \<and>
   list_all (\<lambda>c. \<exists>s. c = Text s \<and> parse_decimal s = None) [Text ''SIM'', Text ''NAO''] \<and>
   to_numeric parse_decimal errors_coerce [Text ''SIM'', Text ''NAO''] = Inr [Missing, Missing] \<and>
   to_numeric parse_decimal errors_raise [Text ''SIM'', Text ''NAO'']
     = Inl (ValueError ''Unable to parse string SIM'')"
proof -
  have a: "list_all numeric_cell [Number 20, Missing, Number 30]" by simp
  have b: "list_all (\<lambda>c. \<exists>s. c = Text s \<and> parse_decimal s = None) [Text ''SIM'', Text ''NAO'']"
    by (simp add: parse_decimal_SIM_NAO)
  have c: "to_numeric parse_decimal errors_raise [Text ''SIM'', Text ''NAO'']
     = Inl (ValueError ''Unable to parse string SIM'')"
    by (simp add: parse_decimal_SIM_NAO)
  show ?thesis
    using a b c
      C8_coercao_idempotente [of parse_decimal "[Number 20, Missing, Number 30]" "[]"]
      C8_coercao_idempotente [of parse_decimal "[Text ''SIM'', Text ''NAO'']" "[]"]
    by simp
qed



section \<open>Properties of the figure script\<close>

lemma seq_alt:
  "seq p f = (case snd p of Inl e \<Rightarrow> (fst p, Inl e)
                          | Inr x \<Rightarrow> (fst p @ fst (f x), snd (f x)))"
  by (cases p; cases "snd p") (auto split: prod.splits)

lemma seq_ret: "seq (ret x) f = f x"
  by (simp add: ret_def split: prod.splits)

lemma seq_emit: "seq (emit ev) f = (ev # fst (f ()), snd (f ()))"
  by (simp add: emit_def split: prod.splits)

lemma seq_raise: "seq (raise e) f = raise e"
  by (simp add: raise_def)

lemma seq_pure_Inr: "seq (pure (Inr x)) f = f x"
  by (simp add: pure_def split: prod.splits)

lemma seq_pure_Inl: "seq (pure (Inl e)) f = ([], Inl e)"
  by (simp add: pure_def)

lemma no_exit_ret: "no_exit (ret x)"
  by (simp add: no_exit_def ret_def)

lemma no_exit_emit: "no_exit (emit ev)"
  by (simp add: no_exit_def emit_def)

lemma no_exit_seq:
  assumes "no_exit p" and "\<And>x. no_exit (f x)"
  shows "no_exit (seq p f)"
proof (cases "snd p")
  case (Inl e)
  with assms(1) show ?thesis by (simp add: seq_alt no_exit_def)
next
  case (Inr x)
  with assms(2) [of x] show ?thesis by (simp add: seq_alt no_exit_def)
qed

lemma no_exit_lib_call: "no_exit (lib_call L label df)"
  by (simp add: lib_call_def no_exit_def ret_def raise_def split: option.splits)

lemma no_exit_savefig: "no_exit (savefig L path df)"
  unfolding savefig_def by (intro no_exit_seq no_exit_lib_call no_exit_emit)

lemma pbind_Inl:
  "pbind r f = Inl e \<Longrightarrow> r = Inl e \<or> (\<exists>x. r = Inr x \<and> f x = Inl e)"
  by (cases r) auto

lemma map_exn_Inl: "map_exn f xs = Inl e \<Longrightarrow> \<exists>x \<in> set xs. f x = Inl e"
proof (induction xs)
  case Nil
  then show ?case by simp
next
  case (Cons a xs)
  show ?case
  proof (cases "f a")
    case (Inl e')
    with Cons.prems show ?thesis by simp
  next
    case (Inr y)
    show ?thesis
    proof (cases "map_exn f xs")
      case (Inl e')
      with Inr Cons.prems have "e' = e" by simp
      with Inl Cons.IH show ?thesis by auto
    next
      case (Inr ys)
      with \<open>f a = Inr y\<close> Cons.prems show ?thesis by simp
    qed
  qed
qed

lemma getitem_Inl: "getitem df name = Inl e \<Longrightarrow> e = KeyError name \<and> map_of df name = None"
  by (auto simp: getitem_def split: option.splits)

lemma no_exit_getitem: "no_exit (pure (getitem df name))"
  by (auto simp: no_exit_def pure_def dest: getitem_Inl)

lemma no_exit_getitems: "no_exit (pure (map_exn (getitem df) names))"
  by (auto simp: no_exit_def pure_def dest!: map_exn_Inl getitem_Inl)

lemma series_agg_Inl: "series_agg f col = Inl e \<Longrightarrow> \<exists>m. e = TypeError m"
  by (auto simp: series_agg_def split: if_splits)

lemma limites_Inl: "limites col = Inl e \<Longrightarrow> \<exists>m. e = TypeError m"
  unfolding limites_def
  by (auto simp: Let_def dest!: pbind_Inl series_agg_Inl)

lemma outlier_hue_Inl: "outlier_hue col = Inl e \<Longrightarrow> \<exists>m. e = TypeError m"
  unfolding outlier_hue_def
  by (auto dest!: pbind_Inl limites_Inl split: prod.splits)

lemma no_exit_outlier_hue: "no_exit (pure (outlier_hue col))"
  by (auto simp: no_exit_def pure_def dest: outlier_hue_Inl)

lemma no_exit_laco_temporal: "no_exit (laco_temporal L df cols)"
proof (induction cols)
  case Nil
  show ?case by (simp add: no_exit_ret)
next
  case (Cons c cols)
  show ?case
    unfolding laco_temporal.simps
    by (intro no_exit_seq no_exit_getitem no_exit_lib_call no_exit_savefig Cons.IH)
qed

lemma no_exit_corpos:
  "no_exit (corpo_temporais L df)" "no_exit (corpo_boxplot L df)"
  "no_exit (corpo_correlacao L df)" "no_exit (corpo_outliers L df)"
  "no_exit (corpo_pca L df)"
  unfolding corpo_temporais_def corpo_boxplot_def corpo_correlacao_def corpo_outliers_def
    corpo_pca_def
  by (intro no_exit_seq no_exit_laco_temporal no_exit_getitems no_exit_getitem
      no_exit_outlier_hue no_exit_lib_call no_exit_savefig no_exit_emit)+

lemma try_except_print:
  assumes "no_exit b"
  shows "try_except b (\<lambda>e. emit (Print (m @ str_exn e)))
     = (fst b @ (case snd b of Inl e \<Rightarrow> [Print (m @ str_exn e)] | Inr u \<Rightarrow> []), Inr ())"
proof (cases b)
  case (Pair t r)
  show ?thesis
  proof (cases r)
    case (Inl e)
    with assms Pair have "is_Exception e" by (cases e) (simp_all add: no_exit_def)
    with Pair Inl show ?thesis by (simp add: emit_def)
  next
    case (Inr u)
    with Pair show ?thesis by simp
  qed
qed

lemma renderer_catches:
  assumes "(name, plot, corpo, msg) \<in> set renderers"
  shows "plot L df
     = (fst (corpo L df)
          @ (case snd (corpo L df) of Inl e \<Rightarrow> [Print (msg @ str_exn e)] | Inr u \<Rightarrow> []),
        Inr ())"
  using assms
  by (auto simp: renderers_def plot_graficos_temporais_def plot_boxplot_def
      plot_correlacao_def plot_outliers_def plot_pca_def try_except_print no_exit_corpos)


lemma imprimir_eq: "imprimir ls = (map Print ls, Inr ())"
  by (induction ls) (simp_all add: ret_def seq_emit)

lemma verificar_ok:
  "set cols \<subseteq> set (columns dados) \<Longrightarrow> verificar dados cols = ret ()"
  by (induction cols) simp_all


lemma columns_setitem: "set (columns (setitem df name col)) = insert name (set (columns df))"
proof (induction df)
  case Nil
  show ?case by (simp add: columns_def)
next
  case (Cons a df)
  obtain n c where a: "a = (n, c)" by (cases a)
  from Cons show ?case
    unfolding a columns_def by (cases "n = name") auto
qed

lemma map_of_setitem:
  "map_of (setitem df name col) k = (if k = name then Some col else map_of df k)"
  by (induction df) auto





lemma pbind_Inr: "pbind r f = Inr y \<Longrightarrow> \<exists>x. r = Inr x \<and> f x = Inr y"
  by (cases r) auto

lemma derivar_Inr:
  "derivar_data_hora L tabela = Inr dados \<Longrightarrow>
   \<exists>data_hora. dados = setitem tabela ''Data_Hora'' data_hora"
  unfolding derivar_data_hora_def
  by (auto dest!: pbind_Inr)

lemma carregar_ok:
  "derivar_data_hora L tabela = Inr dados \<Longrightarrow> carregar L (Inr tabela) = ret dados"
  by (simp add: carregar_def)


lemma gerar_figuras_run:
  assumes load: "carregar L csv = ret dados"
    and cols: "set required_columns \<subseteq> set (columns dados)"
  shows "gerar_figuras L csv
     = (MakeDirs ''graficos''
          # concat (map (\<lambda>(name, plot, corpo, msg). Call name dados # fst (plot L dados))
              renderers)
          @ map Print relatorio_final,
        Inr ())"
proof -
  have r: "\<And>name plot corpo msg. (name, plot, corpo, msg) \<in> set renderers \<Longrightarrow>
     plot L dados = (fst (plot L dados), Inr ())"
    by (subst renderer_catches, assumption) (simp add: renderer_catches)
  have p1: "plot_graficos_temporais L dados = (fst (plot_graficos_temporais L dados), Inr ())"
    by (rule r [of "''plot_graficos_temporais''" _ corpo_temporais Erro_temporais])
      (simp add: renderers_def)
  have p2: "plot_boxplot L dados = (fst (plot_boxplot L dados), Inr ())"
    by (rule r [of "''plot_boxplot''" _ corpo_boxplot Erro_boxplot]) (simp add: renderers_def)
  have p3: "plot_correlacao L dados = (fst (plot_correlacao L dados), Inr ())"
    by (rule r [of "''plot_correlacao''" _ corpo_correlacao Erro_correlacao])
      (simp add: renderers_def)
  have p4: "plot_outliers L dados = (fst (plot_outliers L dados), Inr ())"
    by (rule r [of "''plot_outliers''" _ corpo_outliers Erro_outliers])
      (simp add: renderers_def)
  have p5: "plot_pca L dados = (fst (plot_pca L dados), Inr ())"
    by (rule r [of "''plot_pca''" _ corpo_pca Erro_pca]) (simp add: renderers_def)
  have c: "seq (chamar name plot L dados) k
        = (Call name dados # fst (plot L dados) @ fst (k ()), snd (k ()))"
    if "plot L dados = (fst (plot L dados), Inr ())" for plot name k
  proof -
    from that have "snd (plot L dados) = Inr ()" by (metis snd_conv)
    then have "chamar name plot L dados = (Call name dados # fst (plot L dados), Inr ())"
      by (simp add: chamar_def seq_emit)
    then show ?thesis by (simp split: prod.splits)
  qed
  show ?thesis
    unfolding gerar_figuras_def load seq_ret verificar_ok [OF cols] seq_emit
      c [of plot_graficos_temporais, OF p1] c [of plot_boxplot, OF p2]
      c [of plot_correlacao, OF p3] c [of plot_outliers, OF p4] c [of plot_pca, OF p5]
      imprimir_eq
    by (simp add: renderers_def)
qed


lemma calls_append: "calls (a @ b) = calls a @ calls b"
  by (induction a rule: calls.induct) simp_all


lemma calls_Print: "calls (map Print ls) = []"
  by (induction ls) simp_all


text \<open>A statement that enters no renderer.\<close>

lemma calls_seq:
  assumes "calls (fst p) = []" and "\<And>x. calls (fst (f x)) = []"
  shows "calls (fst (seq p f)) = []"
  using assms by (cases "snd p") (simp_all add: seq_alt calls_append)

lemma calls_lib_call: "calls (fst (lib_call L label df)) = []"
  by (simp add: lib_call_def ret_def raise_def split: option.splits)

lemma calls_pure: "calls (fst (pure r)) = []"
  by (simp add: pure_def)

lemma calls_ret: "calls (fst (ret x)) = []"
  by (simp add: ret_def)

lemma calls_emit: "calls (fst (emit (SaveFig p))) = []" "calls (fst (emit (Hue h))) = []"
  by (simp_all add: emit_def)

lemma calls_savefig: "calls (fst (savefig L path df)) = []"
  unfolding savefig_def by (intro calls_seq calls_lib_call calls_emit)

lemma calls_laco_temporal: "calls (fst (laco_temporal L df cols)) = []"
proof (induction cols)
  case Nil
  show ?case by (simp add: calls_ret)
next
  case (Cons c cols)
  show ?case
    unfolding laco_temporal.simps
    by (intro calls_seq calls_pure calls_lib_call calls_savefig Cons.IH)
qed

lemma calls_corpos:
  "calls (fst (corpo_temporais L df)) = []" "calls (fst (corpo_boxplot L df)) = []"
  "calls (fst (corpo_correlacao L df)) = []" "calls (fst (corpo_outliers L df)) = []"
  "calls (fst (corpo_pca L df)) = []"
  unfolding corpo_temporais_def corpo_boxplot_def corpo_correlacao_def corpo_outliers_def
    corpo_pca_def
  by (intro calls_seq calls_laco_temporal calls_pure calls_lib_call calls_savefig calls_emit)+

lemma calls_renderer:
  assumes "(name, plot, corpo, msg) \<in> set renderers"
  shows "calls (fst (plot L df)) = []"
proof -
  from assms have "calls (fst (corpo L df)) = []"
    by (auto simp: renderers_def calls_corpos)
  then show ?thesis
    by (simp add: renderer_catches [OF assms] calls_append split: sum.splits)
qed

lemma calls_run:
  assumes load: "carregar L csv = ret dados"
    and cols: "set required_columns \<subseteq> set (columns dados)"
  shows "calls (fst (gerar_figuras L csv))
     = [(''plot_graficos_temporais'', dados), (''plot_boxplot'', dados),
        (''plot_correlacao'', dados), (''plot_outliers'', dados), (''plot_pca'', dados)]"
proof -
  have r: "calls (fst (plot_graficos_temporais L dados)) = []"
    "calls (fst (plot_boxplot L dados)) = []" "calls (fst (plot_correlacao L dados)) = []"
    "calls (fst (plot_outliers L dados)) = []" "calls (fst (plot_pca L dados)) = []"
    by (rule calls_renderer
          [of "''plot_graficos_temporais''" _ corpo_temporais Erro_temporais],
        simp add: renderers_def)
      (rule calls_renderer [of "''plot_boxplot''" _ corpo_boxplot Erro_boxplot],
        simp add: renderers_def,
       rule calls_renderer [of "''plot_correlacao''" _ corpo_correlacao Erro_correlacao],
        simp add: renderers_def,
       rule calls_renderer [of "''plot_outliers''" _ corpo_outliers Erro_outliers],
        simp add: renderers_def,
       rule calls_renderer [of "''plot_pca''" _ corpo_pca Erro_pca],
        simp add: renderers_def)
  show ?thesis
    by (simp add: gerar_figuras_run [OF load cols] renderers_def calls_append calls_Print r)
qed

lemma required_dados:
  assumes "derivar_data_hora L tabela = Inr dados"
  shows "filter (\<lambda>c. c \<notin> set (columns dados)) required_columns
       = filter (\<lambda>c. c \<notin> set (columns tabela)) required_columns"
    and "set required_columns \<subseteq> set (columns dados)
       \<longleftrightarrow> set required_columns \<subseteq> set (columns tabela)"
proof -
  from derivar_Inr [OF assms] obtain dh where "dados = setitem tabela ''Data_Hora'' dh" ..
  then have c: "set (columns dados) = insert ''Data_Hora'' (set (columns tabela))"
    by (simp add: columns_setitem)
  show "filter (\<lambda>c. c \<notin> set (columns dados)) required_columns
       = filter (\<lambda>c. c \<notin> set (columns tabela)) required_columns"
    unfolding c by (simp add: required_columns_def)
  show "set required_columns \<subseteq> set (columns dados)
       \<longleftrightarrow> set required_columns \<subseteq> set (columns tabela)"
    unfolding c by (simp add: required_columns_def)
qed


lemma derivar_exemplo: "derivar_data_hora lib_exemplo csv_exemplo = Inr dados_exemplo"
  by (simp add: derivar_data_hora_def getitem_def csv_exemplo_def lib_exemplo_def
      to_datetime_cell_def dados_exemplo_def)

lemma derivar_falha: "derivar_data_hora lib_falha csv_exemplo = Inr dados_exemplo"
  by (simp add: derivar_data_hora_def getitem_def csv_exemplo_def lib_exemplo_def
      lib_falha_def to_datetime_cell_def dados_exemplo_def)

lemma colunas_exemplo: "set required_columns \<subseteq> set (columns csv_exemplo)"
  by (simp add: required_columns_def columns_def csv_exemplo_def)

lemma run_subset:
  assumes load: "carregar L csv = ret dados"
    and cols: "set required_columns \<subseteq> set (columns dados)"
    and r: "(name, plot, corpo, msg) \<in> set renderers"
  shows "set (fst (plot L dados)) \<subseteq> set (fst (gerar_figuras L csv))"
proof -
  have "Call name dados # fst (plot L dados)
      \<in> set (map (\<lambda>(name, plot, corpo, msg). Call name dados # fst (plot L dados)) renderers)"
    using r by force
  then have "set (Call name dados # fst (plot L dados))
      \<subseteq> set (concat (map (\<lambda>(name, plot, corpo, msg). Call name dados # fst (plot L dados))
            renderers))"
    by (metis (no_types, lifting) UN_upper set_concat)
  then show ?thesis
    unfolding gerar_figuras_run [OF load cols] by auto
qed

text \<open>
  C6. When the table loads and holds the required columns, the script ends normally and
  enters the five renderers in their fixed order, whatever the libraries do. Every
  renderer returns normally for every library and table; when its body raises an
  exception \<open>e\<close>, the renderer prints its message followed by the text of \<open>e\<close>
  right after the events the body had caused, and that line is part of the run.
\<close>

theorem C6_renderers_best_effort:
  assumes load: "derivar_data_hora L tabela = Inr dados"
    and cols: "set required_columns \<subseteq> set (columns tabela)"
  shows "snd (gerar_figuras L (Inr tabela)) = Inr () \<and>
     map fst (calls (fst (gerar_figuras L (Inr tabela))))
       = [''plot_graficos_temporais'', ''plot_boxplot'', ''plot_correlacao'',
          ''plot_outliers'', ''plot_pca''] \<and>
     (\<forall>(name, plot, corpo, msg) \<in> set renderers.
        snd (plot L dados) = Inr () \<and>
        (\<forall>e. snd (corpo L dados) = Inl e \<longrightarrow>
           is_Exception e \<and>
           fst (plot L dados) = fst (corpo L dados) @ [Print (msg @ str_exn e)] \<and>
           Print (msg @ str_exn e) \<in> set (fst (gerar_figuras L (Inr tabela)))))"
proof -
  have l: "carregar L (Inr tabela) = ret dados" by (rule carregar_ok [OF load])
  have c: "set required_columns \<subseteq> set (columns dados)"
    using cols required_dados(2) [OF load] by simp
  have one: "snd (plot L dados) = Inr () \<and>
        (\<forall>e. snd (corpo L dados) = Inl e \<longrightarrow>
           is_Exception e \<and>
           fst (plot L dados) = fst (corpo L dados) @ [Print (msg @ str_exn e)] \<and>
           Print (msg @ str_exn e) \<in> set (fst (gerar_figuras L (Inr tabela))))"
    if r: "(name, plot, corpo, msg) \<in> set renderers" for name plot corpo msg
  proof (intro conjI allI impI)
    show "snd (plot L dados) = Inr ()" by (simp add: renderer_catches [OF r])
  next
    fix e assume e: "snd (corpo L dados) = Inl e"
    from r have "no_exit (corpo L dados)" by (auto simp: renderers_def no_exit_corpos)
    with e show "is_Exception e" by (cases e) (simp_all add: no_exit_def)
    from e show p: "fst (plot L dados) = fst (corpo L dados) @ [Print (msg @ str_exn e)]"
      by (simp add: renderer_catches [OF r])
    then have "Print (msg @ str_exn e) \<in> set (fst (plot L dados))" by simp
    with run_subset [OF l c r]
    show "Print (msg @ str_exn e) \<in> set (fst (gerar_figuras L (Inr tabela)))" by blast
  qed
  have s: "snd (gerar_figuras L (Inr tabela)) = Inr ()"
    by (simp add: gerar_figuras_run [OF l c])
  have k: "map fst (calls (fst (gerar_figuras L (Inr tabela))))
       = [''plot_graficos_temporais'', ''plot_boxplot'', ''plot_correlacao'',
          ''plot_outliers'', ''plot_pca'']"
    by (simp add: calls_run [OF l c])
  from one have "\<forall>(name, plot, corpo, msg) \<in> set renderers.
        snd (plot L dados) = Inr () \<and>
        (\<forall>e. snd (corpo L dados) = Inl e \<longrightarrow>
           is_Exception e \<and>
           fst (plot L dados) = fst (corpo L dados) @ [Print (msg @ str_exn e)] \<and>
           Print (msg @ str_exn e) \<in> set (fst (gerar_figuras L (Inr tabela))))"
    by fast
  with s k show ?thesis by (intro conjI)
qed

lemma corpos_falha:
  "corpo_temporais lib_falha dados_exemplo = ([], Inl (LibError ''falha''))"
  "corpo_boxplot lib_falha dados_exemplo = ([], Inl (LibError ''falha''))"
  "corpo_correlacao lib_falha dados_exemplo = ([], Inl (LibError ''falha''))"
  "corpo_outliers lib_falha dados_exemplo = ([], Inl (LibError ''falha''))"
  "corpo_pca lib_falha dados_exemplo = ([], Inl (LibError ''falha''))"
  by (simp_all add: corpo_temporais_def corpo_boxplot_def corpo_correlacao_def
      corpo_outliers_def corpo_pca_def lib_call_def lib_falha_def lib_exemplo_def raise_def
      pure_def getitem_def dados_exemplo_def csv_exemplo_def)

theorem C6_renderers_best_effort_witness:
  "derivar_data_hora lib_falha csv_exemplo = Inr dados_exemplo \<and>
   set required_columns \<subseteq> set (columns csv_exemplo) \<and>
   (''plot_boxplot'', plot_boxplot, corpo_boxplot, Erro_boxplot) \<in> set renderers \<and>
   snd (corpo_boxplot lib_falha dados_exemplo) = Inl (LibError ''falha'') \<and>
   snd (gerar_figuras lib_falha (Inr csv_exemplo)) = Inr () \<and>
   map fst (calls (fst (gerar_figuras lib_falha (Inr csv_exemplo))))
     = [''plot_graficos_temporais'', ''plot_boxplot'', ''plot_correlacao'',
        ''plot_outliers'', ''plot_pca''] \<and>
   snd (plot_boxplot lib_falha dados_exemplo) = Inr () \<and>
   fst (plot_boxplot lib_falha dados_exemplo) = [Print (Erro_boxplot @ ''falha'')] \<and>
   Print (Erro_boxplot @ ''falha'') \<in> set (fst (gerar_figuras lib_falha (Inr csv_exemplo)))"
proof -
  have r: "(''plot_boxplot'', plot_boxplot, corpo_boxplot, Erro_boxplot) \<in> set renderers"
    by (simp add: renderers_def)
  have e: "snd (corpo_boxplot lib_falha dados_exemplo) = Inl (LibError ''falha'')"
    by (simp add: corpos_falha)
  note t = C6_renderers_best_effort [OF derivar_falha colunas_exemplo]
  from t r have "snd (plot_boxplot lib_falha dados_exemplo) = Inr () \<and>
        (\<forall>e. snd (corpo_boxplot lib_falha dados_exemplo) = Inl e \<longrightarrow>
           is_Exception e \<and>
           fst (plot_boxplot lib_falha dados_exemplo)
             = fst (corpo_boxplot lib_falha dados_exemplo) @ [Print (Erro_boxplot @ str_exn e)] \<and>
           Print (Erro_boxplot @ str_exn e)
             \<in> set (fst (gerar_figuras lib_falha (Inr csv_exemplo))))"
    by blast
  with e have "snd (plot_boxplot lib_falha dados_exemplo) = Inr ()"
    "fst (plot_boxplot lib_falha dados_exemplo) = [Print (Erro_boxplot @ ''falha'')]"
    "Print (Erro_boxplot @ ''falha'') \<in> set (fst (gerar_figuras lib_falha (Inr csv_exemplo)))"
    by (auto simp: corpos_falha)
  with t r e derivar_falha colunas_exemplo show ?thesis by blast
qed















lemma derivar_keeps:
  assumes "derivar_data_hora L tabela = Inr dados" "name \<noteq> ''Data_Hora''"
  shows "map_of dados name = map_of tabela name"
  using derivar_Inr [OF assms(1)] assms(2) by (auto simp: map_of_setitem)

text \<open>
  C3, as amended. When the table loads and holds the required columns, each of the five
  renderers is entered once, in order, with the same table \<open>dados\<close>: the table as read
  from the CSV with the column \<open>Data_Hora\<close> set to the parsed timestamps. Every other
  column is the column of the CSV, unchanged: the script coerces nothing.
\<close>

theorem C3_renderers_consume_dados:
  assumes load: "derivar_data_hora L tabela = Inr dados"
    and cols: "set required_columns \<subseteq> set (columns tabela)"
  shows "calls (fst (gerar_figuras L (Inr tabela)))
       = [(''plot_graficos_temporais'', dados), (''plot_boxplot'', dados),
          (''plot_correlacao'', dados), (''plot_outliers'', dados), (''plot_pca'', dados)] \<and>
     (\<exists>data_hora. dados = setitem tabela ''Data_Hora'' data_hora) \<and>
     (\<forall>name. name \<noteq> ''Data_Hora'' \<longrightarrow> map_of dados name = map_of tabela name)"
proof -
  have l: "carregar L (Inr tabela) = ret dados" by (rule carregar_ok [OF load])
  have c: "set required_columns \<subseteq> set (columns dados)"
    using cols required_dados(2) [OF load] by simp
  show ?thesis
    using calls_run [OF l c] derivar_Inr [OF load] derivar_keeps [OF load] by blast
qed

theorem C3_renderers_consume_dados_witness:
  "derivar_data_hora lib_exemplo csv_exemplo = Inr dados_exemplo \<and>
   set required_columns \<subseteq> set (columns csv_exemplo) \<and>
   calls (fst (gerar_figuras lib_exemplo (Inr csv_exemplo)))
       = [(''plot_graficos_temporais'', dados_exemplo), (''plot_boxplot'', dados_exemplo),
          (''plot_correlacao'', dados_exemplo), (''plot_outliers'', dados_exemplo),
          (''plot_pca'', dados_exemplo)] \<and>
   map_of dados_exemplo ''Hora'' = map_of csv_exemplo ''Hora''"
  using C3_renderers_consume_dados [OF derivar_exemplo colunas_exemplo]
    derivar_exemplo colunas_exemplo
  by simp

text \<open>
  On the two readings, the table that the renderers are given still holds the text of the
  \<open>Data\<close> column, which does not parse as a number: it is not the coerced table, in
  which those cells would be missing.
\<close>

theorem C3_cleaned_table_counterexample:
  "calls (fst (gerar_figuras lib_exemplo (Inr csv_exemplo)))
       = [(''plot_graficos_temporais'', dados_exemplo), (''plot_boxplot'', dados_exemplo),
          (''plot_correlacao'', dados_exemplo), (''plot_outliers'', dados_exemplo),
          (''plot_pca'', dados_exemplo)] \<and>
   map_of dados_exemplo ''Data'' = Some [Text ''01/01/2025'', Text ''01/01/2025''] \<and>
   parse_decimal ''01/01/2025'' = None \<and>
   map (numeric_view parse_decimal) [Text ''01/01/2025'', Text ''01/01/2025'']
     = [Missing, Missing] \<and>
   coerce_numeric parse_decimal dados_exemplo \<noteq> Inr dados_exemplo"
proof -
  have l: "carregar lib_exemplo (Inr csv_exemplo) = ret dados_exemplo"
    by (rule carregar_ok [OF derivar_exemplo])
  have c: "set required_columns \<subseteq> set (columns dados_exemplo)"
    using colunas_exemplo required_dados(2) [OF derivar_exemplo] by simp
  have p: "parse_decimal ''01/01/2025'' = None"
    by (simp add: parse_decimal_def parse_unsigned_def digit_val_def)
  have d: "map_of dados_exemplo ''Data'' = Some [Text ''01/01/2025'', Text ''01/01/2025'']"
    by (simp add: dados_exemplo_def csv_exemplo_def)
  have "coerce_numeric parse_decimal dados_exemplo \<noteq> Inr dados_exemplo"
    by (simp add: coerce_numeric_eq dados_exemplo_def csv_exemplo_def p)
  with calls_run [OF l c] p d show ?thesis by simp
qed












section \<open>The run on the two readings\<close>

text \<open>
  With libraries that raise nowhere, the run on the two readings creates the directory,
  enters the five renderers, saves the eight image files and prints the closing list.
\<close>

lemma hue_umidade_exemplo: "outlier_hue [Number 50, Number 70] = Inr [''Normal'', ''Normal'']"
  by (simp add: outlier_hue_def limites_def series_agg_def quantile_of_def fsub_def
      classificar_def fgt_def)

lemma corpos_exemplo:
  "corpo_temporais lib_exemplo dados_exemplo
     = ([SaveFig ''graficos/temporal_umidadear.png'', SaveFig ''graficos/temporal_temp.png'',
         SaveFig ''graficos/temporal_usolo.png'', SaveFig ''graficos/temporal_combinado.png''],
        Inr ())"
  "corpo_boxplot lib_exemplo dados_exemplo = ([SaveFig ''graficos/boxplot_variaveis.png''], Inr ())"
  "corpo_correlacao lib_exemplo dados_exemplo
     = ([SaveFig ''graficos/matriz_correlacao.png''], Inr ())"
  "corpo_outliers lib_exemplo dados_exemplo
     = ([Hue [''Normal'', ''Normal''], SaveFig ''graficos/outliers_umidade.png''], Inr ())"
  "corpo_pca lib_exemplo dados_exemplo = ([SaveFig ''graficos/pca_ambiental.png''], Inr ())"
  by (simp_all add: corpo_temporais_def corpo_boxplot_def corpo_correlacao_def
      corpo_outliers_def corpo_pca_def variaveis_temporais_def savefig_def lib_call_def
      lib_exemplo_def seq_ret seq_emit seq_pure_Inr getitem_def dados_exemplo_def
      csv_exemplo_def lower_def lower_char_def hue_umidade_exemplo ret_def)

lemma run_exemplo:
  "gerar_figuras lib_exemplo (Inr csv_exemplo)
     = ([MakeDirs ''graficos'',
         Call ''plot_graficos_temporais'' dados_exemplo,
         SaveFig ''graficos/temporal_umidadear.png'', SaveFig ''graficos/temporal_temp.png'',
         SaveFig ''graficos/temporal_usolo.png'', SaveFig ''graficos/temporal_combinado.png'',
         Call ''plot_boxplot'' dados_exemplo, SaveFig ''graficos/boxplot_variaveis.png'',
         Call ''plot_correlacao'' dados_exemplo, SaveFig ''graficos/matriz_correlacao.png'',
         Call ''plot_outliers'' dados_exemplo, Hue [''Normal'', ''Normal''],
         SaveFig ''graficos/outliers_umidade.png'',
         Call ''plot_pca'' dados_exemplo, SaveFig ''graficos/pca_ambiental.png'']
        @ map Print relatorio_final,
        Inr ())"
proof -
  have l: "carregar lib_exemplo (Inr csv_exemplo) = ret dados_exemplo"
    by (rule carregar_ok [OF derivar_exemplo])
  have c: "set required_columns \<subseteq> set (columns dados_exemplo)"
    using colunas_exemplo required_dados(2) [OF derivar_exemplo] by simp
  have p: "fst (plot_graficos_temporais lib_exemplo dados_exemplo)
       = fst (corpo_temporais lib_exemplo dados_exemplo)"
    "fst (plot_boxplot lib_exemplo dados_exemplo) = fst (corpo_boxplot lib_exemplo dados_exemplo)"
    "fst (plot_correlacao lib_exemplo dados_exemplo)
       = fst (corpo_correlacao lib_exemplo dados_exemplo)"
    "fst (plot_outliers lib_exemplo dados_exemplo)
       = fst (corpo_outliers lib_exemplo dados_exemplo)"
    "fst (plot_pca lib_exemplo dados_exemplo) = fst (corpo_pca lib_exemplo dados_exemplo)"
    by (simp_all add: plot_graficos_temporais_def plot_boxplot_def plot_correlacao_def
        plot_outliers_def plot_pca_def corpos_exemplo)
  show ?thesis
    unfolding gerar_figuras_run [OF l c]
    by (simp add: renderers_def p corpos_exemplo)
qed


end
